theory Spec2Isabelle
  imports Complex_Main "HOL-Library.Sublist"
begin

section \<open>JavaScript strings and numbers\<close>

text \<open>
  Phrases are JavaScript strings; they are modelled as lists of 8-bit code units.
  Every test the services make on a phrase looks for ASCII text only (keywords, digits,
  a colon, white space), so \<open>toLowerCase\<close> is modelled on the letters A to Z and
  leaves every other code unit as it is.
\<close>

definition lowerChar :: "char \<Rightarrow> char" where
  "lowerChar c =
     (case map_of (zip ''ABCDEFGHIJKLMNOPQRSTUVWXYZ'' ''abcdefghijklmnopqrstuvwxyz'') c of
        Some l \<Rightarrow> l
      | None \<Rightarrow> c)"

definition toLowerCase :: "string \<Rightarrow> string" where
  "toLowerCase s = map lowerChar s"

text \<open>White space of \<open>String.prototype.trim\<close> and of the regular expression class \<open>\s\<close>
  among the 8-bit code units: TAB, LF, VT, FF, CR, SPACE and NBSP.\<close>

definition isWhiteSpace :: "char \<Rightarrow> bool" where
  "isWhiteSpace c =
     (c \<in> set [CHR 0x09, CHR 0x0A, CHR 0x0B, CHR 0x0C, CHR 0x0D, CHR 0x20, CHR 0xA0])"

definition trim :: "string \<Rightarrow> string" where
  "trim s = rev (dropWhile isWhiteSpace (rev (dropWhile isWhiteSpace s)))"

text \<open>\<open>s.includes(sub)\<close>: \<open>sub\<close> occurs in \<open>s\<close> as a contiguous run
  (the name \<open>includes\<close> is reserved in Isabelle).\<close>

fun str_includes :: "string \<Rightarrow> string \<Rightarrow> bool" where
  "str_includes [] sub = (sub = [])"
| "str_includes (c # cs) sub = (prefix sub (c # cs) \<or> str_includes cs sub)"

text \<open>The regular expression class \<open>\d\<close>: the ten ASCII digits.\<close>

definition isDigit :: "char \<Rightarrow> bool" where
  "isDigit c = (c \<in> set ''0123456789'')"

definition digitValue :: "char \<Rightarrow> int" where
  "digitValue c =
     (case map_of (zip ''0123456789'' [0, 1, 2, 3, 4, 5, 6, 7, 8, 9]) c of
        Some v \<Rightarrow> v
      | None \<Rightarrow> 0)"

text \<open>\<open>parseInt\<close> on a capture group of \<open>\d\<close> characters (the only strings it is given).\<close>

definition parseInt :: "string \<Rightarrow> int" where
  "parseInt ds = foldl (\<lambda>n c. 10 * n + digitValue c) 0 ds"

text \<open>\<open>String(n)\<close> for an integer, and \<open>padStart(w, '0')\<close>.\<close>

definition digitChar :: "int \<Rightarrow> char" where
  "digitChar n = ''0123456789'' ! nat (n mod 10)"

function decimal :: "int \<Rightarrow> string" where
  "decimal n =
     (if n < 0 then CHR ''-'' # decimal (- n)
      else if n < 10 then [digitChar n]
      else decimal (n div 10) @ [digitChar n])"
  by pat_completeness auto
termination
  by (relation "measure (\<lambda>n. if n < 0 then nat (1 - n) else nat n)") auto

declare decimal.simps [simp del]

definition padStart :: "nat \<Rightarrow> string \<Rightarrow> string" where
  "padStart w s = replicate (w - length s) (CHR ''0'') @ s"

text \<open>JavaScript truthiness of a value of type \<open>string | null\<close>: \<open>null\<close> and the
  empty string are falsy.\<close>

definition falsy :: "string option \<Rightarrow> bool" where
  "falsy v = (case v of None \<Rightarrow> True | Some s \<Rightarrow> s = [])"

section \<open>The time patterns of \<open>normalizeTimePhrase\<close>\<close>

text \<open>\<open>digitsAt n s\<close>: the string starts with \<open>n\<close> digits.\<close>

definition digitsAt :: "nat \<Rightarrow> string \<Rightarrow> bool" where
  "digitsAt n s = (n \<le> length s \<and> list_all isDigit (take n s))"

text \<open>
  \<^verbatim>\<open>/(\d{1,2}):(\d{2})/\<close> tried at the head of a string. The quantifier is greedy: two
  digits are tried before one. The result holds the two capture groups.
\<close>

definition time24At :: "string \<Rightarrow> (string \<times> string) option" where
  "time24At s =
     (if digitsAt 2 s \<and> prefix '':'' (drop 2 s) \<and> digitsAt 2 (drop 3 s)
        then Some (take 2 s, take 2 (drop 3 s))
      else if digitsAt 1 s \<and> prefix '':'' (drop 1 s) \<and> digitsAt 2 (drop 2 s)
        then Some (take 1 s, take 2 (drop 2 s))
      else None)"

text \<open>\<open>phrase.match(re)\<close> without the g flag: the leftmost position where the pattern
  matches.\<close>

fun time24Match :: "string \<Rightarrow> (string \<times> string) option" where
  "time24Match [] = None"
| "time24Match (c # cs) =
     (case time24At (c # cs) of Some m \<Rightarrow> Some m | None \<Rightarrow> time24Match cs)"

text \<open>
  \<^verbatim>\<open>/(\d{1,2})(?::(\d{2}))?\s*(am|pm)/\<close>, from the right: \<^verbatim>\<open>\s*(am|pm)\<close> (no
  alternative starts with white space, so skipping all of it loses no match), then the
  optional minutes (tried present before absent), then the hour digits (two before
  one).
\<close>

definition meridiemAt :: "string \<Rightarrow> string option" where
  "meridiemAt s =
     (let r = dropWhile isWhiteSpace s in
      if prefix ''am'' r then Some ''am''
      else if prefix ''pm'' r then Some ''pm''
      else None)"

definition minutesMeridiemAt :: "string \<Rightarrow> (string option \<times> string) option" where
  "minutesMeridiemAt s =
     (case (if prefix '':'' s \<and> digitsAt 2 (drop 1 s)
            then map_option (Pair (Some (take 2 (drop 1 s)))) (meridiemAt (drop 3 s))
            else None) of
        Some r \<Rightarrow> Some r
      | None \<Rightarrow> map_option (Pair None) (meridiemAt s))"

definition time12At :: "string \<Rightarrow> (string \<times> string option \<times> string) option" where
  "time12At s =
     (case (if digitsAt 2 s
            then map_option (Pair (take 2 s)) (minutesMeridiemAt (drop 2 s))
            else None) of
        Some r \<Rightarrow> Some r
      | None \<Rightarrow>
          if digitsAt 1 s
          then map_option (Pair (take 1 s)) (minutesMeridiemAt (drop 1 s))
          else None)"

fun time12Match :: "string \<Rightarrow> (string \<times> string option \<times> string) option" where
  "time12Match [] = None"
| "time12Match (c # cs) =
     (case time12At (c # cs) of Some m \<Rightarrow> Some m | None \<Rightarrow> time12Match cs)"

section \<open>Exceptions\<close>

text \<open>
  A JavaScript call either returns or throws. Functions of the services are modelled
  with a result of type \<open>js_error + 'a\<close>: \<open>Inl\<close> is a thrown exception, \<open>Inr\<close> a
  returned value, and \<open>try { ... } catch (e) { ... }\<close> is a case distinction on it.
\<close>

datatype js_error = RangeError | TypeError | ZodError | Error string

section \<open>\<open>normalizeTimePhrase\<close>\<close>

record timeInfo =
  ti_time :: string
  ti_hours :: int
  ti_minutes :: int

text \<open>The body of the \<open>try\<close> block, after \<open>hours\<close> and \<open>minutes\<close> are set: the range
  check and the formatting of \<open>HH:MM\<close>.\<close>

definition timeResult :: "int \<Rightarrow> int \<Rightarrow> timeInfo option" where
  "timeResult hours minutes =
     (if hours \<ge> 0 \<and> hours < 24 \<and> minutes \<ge> 0 \<and> minutes < 60
      then Some \<lparr>ti_time = padStart 2 (decimal hours) @ '':'' @ padStart 2 (decimal minutes),
                 ti_hours = hours, ti_minutes = minutes\<rparr>
      else None)"

definition hours12 :: "int \<Rightarrow> string \<Rightarrow> int" where
  "hours12 h meridiem =
     (if meridiem = ''pm'' \<and> h \<noteq> 12 then h + 12
      else if meridiem = ''am'' \<and> h = 12 then 0
      else h)"

definition normalizeTimePhrase :: "string option \<Rightarrow> js_error + timeInfo option" where
  "normalizeTimePhrase timePhrase =
     (case timePhrase of
        None \<Rightarrow> Inr None
      | Some tp \<Rightarrow>
          if tp = [] then Inr None
          else
            let phrase = trim (toLowerCase tp) in
            (case time24Match phrase of
               Some (h, m) \<Rightarrow> Inr (timeResult (parseInt h) (parseInt m))
             | None \<Rightarrow>
                 (case time12Match phrase of
                    Some (h, m, meridiem) \<Rightarrow>
                      Inr (timeResult (hours12 (parseInt h) meridiem)
                             (case m of Some ds \<Rightarrow> parseInt ds | None \<Rightarrow> 0))
                  | None \<Rightarrow> Inr (timeResult 0 0))))"

section \<open>Dates\<close>

text \<open>
  A valid JavaScript \<open>Date\<close> is modelled by the fields it shows in the host's local
  time, which are what the code reads and writes: the day, counted from 1970-01-01, and
  the milliseconds since 00:00 of that day. \<open>None\<close> is Invalid Date. \<open>date-fns\<close> and
  \<open>Date\<close> are not code of the repository: their functions are written on this model
  from their documented behaviour.
\<close>

record wall =
  dayNumber :: int
  msOfDay :: int

type_synonym jsdate = "wall option"

section \<open>What the service takes from outside the repository\<close>

text \<open>
  The clock, the host's local time, the time zone data behind \<open>date-fns-tz\<close> and the
  format parser of \<open>date-fns\<close> are not code of the repository; they are parameters of
  the model.
  \<^item> \<open>hostTime day ms\<close>: the time of day that a \<open>Date\<close> shows once its local fields are
    set to \<open>ms\<close> on that day. It is \<open>ms\<close> itself, unless the host's zone skips that
    local time: a zone that starts summer time at 00:00 has no midnight on that day, and
    the \<open>Date\<close> shows 01:00. A skipped time is taken to move within its day.
  \<^item> \<open>zoneKnown tz\<close>: the library accepts the time zone string.
  \<^item> \<open>zoneError tz\<close>: what a conversion does with a zone it does not accept: it
    throws the given error, or (\<open>None\<close>) it returns Invalid Date.
  \<^item> \<open>zonedNow tz\<close>: the fields of the \<open>Date\<close> that \<open>utcToZonedTime\<close> gives for
    \<open>new Date()\<close> in a zone it accepts: the wall-clock reading of now in that zone.
  \<^item> \<open>utcOf w tz\<close>: the instant (milliseconds since the epoch, UTC) of a wall-clock
    reading in a zone it accepts.
  \<^item> \<open>parseWith s f ref\<close>: \<open>parse(s, f, ref)\<close> for a valid reference date; it may
    throw, return Invalid Date or return a date.
  \<^item> \<open>clock\<close>: \<open>Date.now()\<close>.
\<close>

record library =
  hostTime :: "int \<Rightarrow> int \<Rightarrow> int"
  zoneKnown :: "string \<Rightarrow> bool"
  zoneError :: "string \<Rightarrow> js_error option"
  zonedNow :: "string \<Rightarrow> wall"
  utcOf :: "wall \<Rightarrow> string \<Rightarrow> int"
  parseWith :: "string \<Rightarrow> string \<Rightarrow> wall \<Rightarrow> js_error + jsdate"
  clock :: int

text \<open>\<open>utcToZonedTime(new Date(), timezone)\<close> and \<open>zonedTimeToUtc(dt, timezone)\<close>: both
  look the zone up in the same data, and fail in the same way on a zone it does not
  accept. In a zone it accepts, a valid date is converted to a valid date.\<close>

definition unknownZone :: "library \<Rightarrow> string \<Rightarrow> js_error + 'a option" where
  "unknownZone L tz = (case zoneError L tz of Some e \<Rightarrow> Inl e | None \<Rightarrow> Inr None)"

definition utcToZonedTime :: "library \<Rightarrow> string \<Rightarrow> js_error + jsdate" where
  "utcToZonedTime L tz =
     (if zoneKnown L tz then Inr (Some (zonedNow L tz)) else unknownZone L tz)"

definition zonedTimeToUtc :: "library \<Rightarrow> jsdate \<Rightarrow> string \<Rightarrow> js_error + int option" where
  "zonedTimeToUtc L dt tz =
     (if zoneKnown L tz then Inr (map_option (\<lambda>w. utcOf L w tz) dt) else unknownZone L tz)"

text \<open>\<open>parse(s, f, ref)\<close> returns Invalid Date when the reference date is invalid.\<close>

definition parse :: "library \<Rightarrow> string \<Rightarrow> string \<Rightarrow> jsdate \<Rightarrow> js_error + jsdate" where
  "parse L s f ref = (case ref of None \<Rightarrow> Inr None | Some r \<Rightarrow> parseWith L s f r)"

section \<open>The functions of \<open>date-fns\<close> and \<open>Date\<close> that the service calls\<close>

text \<open>
  \<open>startOfDay\<close>, \<open>add\<close>, \<open>setHours\<close> and \<open>setMinutes\<close> set local fields of a \<open>Date\<close>.
  The \<open>Date\<close> then shows these fields, unless the host's zone skips that local time:
  \<open>setLocal\<close> gives the fields it shows.
\<close>

definition setLocal :: "library \<Rightarrow> wall \<Rightarrow> wall" where
  "setLocal L w = w\<lparr>msOfDay := hostTime L (dayNumber w) (msOfDay w)\<rparr>"

text \<open>\<open>startOfDay(date)\<close> sets the local time to 00:00:00.000.\<close>

definition startOfDay :: "library \<Rightarrow> jsdate \<Rightarrow> jsdate" where
  "startOfDay L d = map_option (\<lambda>w. setLocal L (w\<lparr>msOfDay := 0\<rparr>)) d"

text \<open>\<open>add(date, {days: n})\<close> sets the day of the month and keeps the local time of day;
  a number is \<open>None\<close> when it is \<open>NaN\<close>.\<close>

definition add_days :: "library \<Rightarrow> jsdate \<Rightarrow> int option \<Rightarrow> jsdate" where
  "add_days L d n =
     (case (d, n) of
        (Some w, Some k) \<Rightarrow> Some (setLocal L (w\<lparr>dayNumber := dayNumber w + k\<rparr>))
      | _ \<Rightarrow> None)"

text \<open>\<open>getDay()\<close>: 0 is Sunday; 1970-01-01 was a Thursday. \<open>NaN\<close> on Invalid Date.\<close>

definition getDay :: "jsdate \<Rightarrow> int option" where
  "getDay d = map_option (\<lambda>w. (dayNumber w + 4) mod 7) d"

text \<open>\<open>setHours\<close> and \<open>setMinutes\<close> replace one field and keep the smaller ones; a
  value out of the field's range carries into the larger fields, as \<open>Date\<close> does.\<close>

definition ofMillis :: "int \<Rightarrow> int \<Rightarrow> wall" where
  "ofMillis day ms = \<lparr>dayNumber = day + ms div 86400000, msOfDay = ms mod 86400000\<rparr>"

definition setHours :: "library \<Rightarrow> jsdate \<Rightarrow> int \<Rightarrow> jsdate" where
  "setHours L d h =
     map_option (\<lambda>w. setLocal L
        (ofMillis (dayNumber w) (h * 3600000 + msOfDay w mod 3600000))) d"

definition setMinutes :: "library \<Rightarrow> jsdate \<Rightarrow> int \<Rightarrow> jsdate" where
  "setMinutes L d m =
     map_option (\<lambda>w. setLocal L
        (ofMillis (dayNumber w)
           (msOfDay w div 3600000 * 3600000 + m * 60000 + msOfDay w mod 60000))) d"

text \<open>The proleptic Gregorian calendar: year, month (1 to 12) and day of the month of a
  day number.\<close>

definition civil :: "int \<Rightarrow> int \<times> int \<times> int" where
  "civil day =
     (let z = day + 719468;
          era = z div 146097;
          doe = z mod 146097;
          yoe = (doe - doe div 1460 + doe div 36524 - doe div 146096) div 365;
          doy = doe - (365 * yoe + yoe div 4 - yoe div 100);
          mp = (5 * doy + 2) div 153;
          d = doy - (153 * mp + 2) div 5 + 1;
          m = (if mp < 10 then mp + 3 else mp - 9);
          y = yoe + era * 400 + (if m \<le> 2 then 1 else 0)
      in (y, m, d))"

definition pad :: "nat \<Rightarrow> int \<Rightarrow> string" where
  "pad w n = padStart w (decimal n)"

text \<open>\<open>format(date, 'yyyy-MM-dd')\<close> throws a \<open>RangeError\<close> on Invalid Date. A year
  before year 1 is written as its year of the era.\<close>

definition format_ymd :: "jsdate \<Rightarrow> js_error + string" where
  "format_ymd d =
     (case d of
        None \<Rightarrow> Inl RangeError
      | Some w \<Rightarrow>
          (case civil (dayNumber w) of
             (y, m, dd) \<Rightarrow>
               Inr (pad 4 (if y > 0 then y else 1 - y) @ ''-'' @ pad 2 m @ ''-'' @ pad 2 dd)))"

text \<open>\<open>toISOString()\<close> of an instant given in milliseconds since the epoch; it throws a
  \<open>RangeError\<close> on Invalid Date.\<close>

definition isoYear :: "int \<Rightarrow> string" where
  "isoYear y =
     (if 0 \<le> y \<and> y \<le> 9999 then pad 4 y
      else (if y < 0 then ''-'' else ''+'') @ pad 6 (abs y))"

definition toISOString :: "int option \<Rightarrow> js_error + string" where
  "toISOString t =
     (case t of
        None \<Rightarrow> Inl RangeError
      | Some ms \<Rightarrow>
          (case civil (ms div 86400000) of
             (y, m, d) \<Rightarrow>
               (let r = ms mod 86400000 in
                Inr (isoYear y @ ''-'' @ pad 2 m @ ''-'' @ pad 2 d @ ''T'' @
                     pad 2 (r div 3600000) @ '':'' @ pad 2 (r mod 3600000 div 60000) @ '':'' @
                     pad 2 (r mod 60000 div 1000) @ ''.'' @ pad 3 (r mod 1000) @ ''Z''))))"

section \<open>\<open>normalizeDatePhrase\<close>\<close>

record dateInfo =
  di_date :: string
  di_datetime :: jsdate

definition days :: "string list" where
  "days = [''sunday'', ''monday'', ''tuesday'', ''wednesday'', ''thursday'', ''friday'', ''saturday'']"

definition formats :: "string list" where
  "formats = [''yyyy-MM-dd'', ''dd/MM/yyyy'', ''MM/dd/yyyy'', ''MMM dd, yyyy'']"

text \<open>\<open>xs.indexOf(x)\<close>: the first index of \<open>x\<close>, or \<open>-1\<close>.\<close>

fun indexOf :: "'a list \<Rightarrow> 'a \<Rightarrow> int" where
  "indexOf [] x = -1"
| "indexOf (y # ys) x =
     (if y = x then 0 else (let i = indexOf ys x in if i < 0 then -1 else i + 1))"

text \<open>The loop over the formats: the first format whose \<open>parse\<close> returns a valid date
  sets \<open>targetDate\<close>; a format that throws or gives Invalid Date is passed over. A
  variable that holds a \<open>Date\<close> or \<open>null\<close> is a \<open>jsdate option\<close>.\<close>

fun tryFormats :: "library \<Rightarrow> string \<Rightarrow> jsdate \<Rightarrow> string list \<Rightarrow> jsdate option" where
  "tryFormats L datePhrase now [] = None"
| "tryFormats L datePhrase now (f # fs) =
     (case parse L datePhrase f now of
        Inr (Some w) \<Rightarrow> Some (Some w)
      | _ \<Rightarrow> tryFormats L datePhrase now fs)"

text \<open>The chain of tests that sets \<open>targetDate\<close>, given \<open>now\<close>.\<close>

definition targetDate :: "library \<Rightarrow> string \<Rightarrow> jsdate \<Rightarrow> jsdate option" where
  "targetDate L datePhrase now =
     (let phrase = trim (toLowerCase datePhrase)
      in
        if str_includes phrase ''today'' then Some (startOfDay L now)
        else if str_includes phrase ''tomorrow''
          then Some (add_days L (startOfDay L now) (Some 1))
        else if str_includes phrase ''day after tomorrow''
          then Some (add_days L (startOfDay L now) (Some 2))
        else if str_includes phrase ''next'' then
          (case find (\<lambda>day. str_includes phrase day) days of
             None \<Rightarrow> None
           | Some dayMatch \<Rightarrow>
               (let targetDayIndex = indexOf days dayMatch;
                    currentDayIndex = getDay now;
                    daysToAdd = map_option (\<lambda>c. targetDayIndex - c) currentDayIndex;
                    daysToAdd' = map_option (\<lambda>n. if n \<le> 0 then n + 7 else n) daysToAdd
                in Some (add_days L (startOfDay L now) daysToAdd')))
        else tryFormats L datePhrase now formats)"

text \<open>The body of the outer \<open>try\<close> block, and the function with its \<open>catch\<close>.\<close>

definition normalizeDatePhrase_try :: "library \<Rightarrow> string \<Rightarrow> string \<Rightarrow> js_error + dateInfo option" where
  "normalizeDatePhrase_try L datePhrase tz =
     (case utcToZonedTime L tz of
        Inl e \<Rightarrow> Inl e
      | Inr now \<Rightarrow>
          (case targetDate L datePhrase now of
             None \<Rightarrow> Inr None
           | Some d \<Rightarrow>
               (case format_ymd d of
                  Inl e \<Rightarrow> Inl e
                | Inr s \<Rightarrow> Inr (Some \<lparr>di_date = s, di_datetime = d\<rparr>))))"

definition normalizeDatePhrase :: "library \<Rightarrow> string option \<Rightarrow> string \<Rightarrow> js_error + dateInfo option" where
  "normalizeDatePhrase L datePhrase tz =
     (case datePhrase of
        None \<Rightarrow> Inr None
      | Some p \<Rightarrow>
          if p = [] then Inr None
          else (case normalizeDatePhrase_try L p tz of
                  Inl error \<Rightarrow> Inr None
                | Inr r \<Rightarrow> Inr r))"

section \<open>\<open>normalizeEntities\<close>\<close>

record rawEntities =
  date_phrase :: "string option"
  time_phrase :: "string option"
  department :: "string option"
  confidence :: real
  is_clear :: bool

record normalized =
  n_date :: "string option"
  n_time :: "string option"
  n_datetime :: "string option"
  n_department :: "string option"
  n_timezone :: string

text \<open>\<open>x || null\<close> for a string read through \<open>?.\<close>: the empty string becomes
  \<open>null\<close>.\<close>

definition orNull :: "string option \<Rightarrow> string option" where
  "orNull v = (if falsy v then None else v)"

text \<open>The \<open>try\<close> block that composes the instant; its \<open>catch\<close> is empty, so a throw
  leaves \<open>datetime\<close> at \<open>null\<close>.\<close>

definition compose :: "library \<Rightarrow> dateInfo \<Rightarrow> timeInfo \<Rightarrow> string \<Rightarrow> js_error + string" where
  "compose L dateInfo timeInfo tz =
     (let dt = di_datetime dateInfo;
          dt1 = setHours L dt (ti_hours timeInfo);
          dt2 = setMinutes L dt1 (ti_minutes timeInfo)
      in case zonedTimeToUtc L dt2 tz of
           Inl e \<Rightarrow> Inl e
         | Inr t \<Rightarrow> toISOString t)"

definition normalizeEntities :: "library \<Rightarrow> rawEntities \<Rightarrow> string \<Rightarrow> js_error + normalized" where
  "normalizeEntities L entities tz =
     (case normalizeDatePhrase L (date_phrase entities) tz of
        Inl e \<Rightarrow> Inl e
      | Inr dateInfo \<Rightarrow>
          (case normalizeTimePhrase (time_phrase entities) of
             Inl e \<Rightarrow> Inl e
           | Inr timeInfo \<Rightarrow>
               (let datetime =
                      (case (dateInfo, timeInfo) of
                         (Some di, Some ti) \<Rightarrow>
                           (case compose L di ti tz of Inl e \<Rightarrow> None | Inr s \<Rightarrow> Some s)
                       | _ \<Rightarrow> None)
                in Inr \<lparr>n_date = orNull (map_option di_date dateInfo),
                         n_time = orNull (map_option ti_time timeInfo),
                         n_datetime = datetime,
                         n_department = department entities,
                         n_timezone = tz\<rparr>)))"

section \<open>The clarification gate\<close>

definition needsClarification :: "rawEntities \<Rightarrow> bool" where
  "needsClarification entities =
     (if confidence entities < 0.6 then True
      else if falsy (date_phrase entities) \<or> falsy (time_phrase entities) \<or>
              falsy (department entities) then True
      else \<not> is_clear entities)"

text \<open>\<open>xs.join(sep)\<close>.\<close>

fun join :: "string \<Rightarrow> string list \<Rightarrow> string" where
  "join sep [] = []"
| "join sep [x] = x"
| "join sep (x # y # ys) = x @ sep @ join sep (y # ys)"

definition generateClarificationMessage :: "rawEntities \<Rightarrow> string" where
  \<open>generateClarificationMessage entities =
     (let missing =
            (if falsy (date_phrase entities) then [''Date (e.g., "tomorrow", "Jan 25")''] else []) @
            (if falsy (time_phrase entities) then [''Time (e.g., "3pm", "10:00")''] else []) @
            (if falsy (department entities)
             then [''Department (e.g., "Cardiology", "Dentist")''] else [])
      in if length missing > 0 then ''Please provide: '' @ join '', '' missing
         else ''Please provide the appointment date, time, and department.'')\<close>

section \<open>The controller\<close>

text \<open>
  The handlers await the OCR service and the entity extractor, which are outside the
  model: what these return is an argument. The in-memory list \<open>appointments\<close> is
  passed in and returned. \<open>envTz\<close> is \<open>process.env.DEFAULT_TIMEZONE\<close>, \<open>None\<close> when
  the variable is not set. A throw inside a handler goes to \<open>next(err)\<close>; it is the
  \<open>Inl\<close> result.
\<close>

record appointment =
  rawText :: string
  extractedEntities :: rawEntities
  normalizedData :: normalized
  status :: string
  source :: string
  imagePath :: "string option"
  appt_id :: string
  createdAt :: int

definition saveAppointment ::
  "library \<Rightarrow> appointment list \<Rightarrow> appointment \<Rightarrow> appointment \<times> appointment list" where
  "saveAppointment L appointments apptData =
     (let newAppt = apptData\<lparr>appt_id := ''appt_'' @ decimal (clock L), createdAt := clock L\<rparr>
      in (newAppt, newAppt # appointments))"

text \<open>Of the JSON replies the model keeps the message of a \<open>needs_clarification\<close>
  reply, and of an \<open>ok\<close> reply the raw text, the two confidences computed here, the
  \<open>appointment\<close> object and the id. \<open>saveAppointment\<close> reads the clock once.\<close>

record appointmentView =
  a_department :: string
  a_date :: "string option"
  a_time :: "string option"
  a_tz :: string

record okBody =
  ok_raw_text :: string
  ok_entities_confidence :: real
  ok_normalization_confidence :: real
  ok_appointment :: appointmentView
  ok_id :: string

datatype response =
    NeedsClarification string
  | Ok okBody

text \<open>The module constant, and the default value of the parameter \<open>timezone\<close>, which
  applies when the argument is \<open>undefined\<close>.\<close>

definition DEFAULT_TIMEZONE :: "string option \<Rightarrow> string" where
  "DEFAULT_TIMEZONE envTz = (case orNull envTz of None \<Rightarrow> ''Asia/Kolkata'' | Some z \<Rightarrow> z)"

definition timezoneArg :: "string option \<Rightarrow> string" where
  "timezoneArg envTz = (case envTz of None \<Rightarrow> DEFAULT_TIMEZONE envTz | Some z \<Rightarrow> z)"

text \<open>\<open>a || b || "General"\<close> on values of type \<open>string | null\<close>.\<close>

definition departmentOr :: "string option \<Rightarrow> string option \<Rightarrow> string" where
  "departmentOr a b =
     (case orNull a of
        Some x \<Rightarrow> x
      | None \<Rightarrow> (case orNull b of Some y \<Rightarrow> y | None \<Rightarrow> ''General''))"

text \<open>What both handlers do once the entities are extracted: normalize, ask for
  clarification, or save and reply.\<close>

definition respond ::
  "library \<Rightarrow> string option \<Rightarrow> appointment list \<Rightarrow> string \<Rightarrow> string \<Rightarrow> string option \<Rightarrow>
   rawEntities \<Rightarrow> js_error + response \<times> appointment list" where
  "respond L envTz appointments text src path entities =
     (case normalizeEntities L entities (timezoneArg envTz) of
        Inl e \<Rightarrow> Inl e
      | Inr normalized \<Rightarrow>
          if needsClarification entities
            then Inr (NeedsClarification (generateClarificationMessage entities), appointments)
          else if falsy (n_date normalized) \<or> falsy (n_time normalized)
            then Inr (NeedsClarification ''Ambiguous date/time or department'', appointments)
          else
            (case saveAppointment L appointments
                    \<lparr>rawText = text, extractedEntities = entities, normalizedData = normalized,
                     status = ''success'', source = src, imagePath = path,
                     appt_id = [], createdAt = 0\<rparr> of
               (appointment, appointments') \<Rightarrow>
                 Inr (Ok \<lparr>ok_raw_text = text,
                          ok_entities_confidence = confidence entities,
                          ok_normalization_confidence =
                            (if \<not> falsy (n_date normalized) \<and> \<not> falsy (n_time normalized)
                             then 0.95 else 0.5),
                          ok_appointment =
                            \<lparr>a_department =
                               departmentOr (n_department normalized) (department entities),
                             a_date = n_date normalized, a_time = n_time normalized,
                             a_tz = n_timezone normalized\<rparr>,
                          ok_id = appt_id appointment\<rparr>,
                      appointments')))"

text \<open>\<open>processTextParse\<close>: the body must hold a non-empty string \<open>text\<close>.\<close>

definition processTextParse ::
  "library \<Rightarrow> string option \<Rightarrow> appointment list \<Rightarrow> string \<Rightarrow> rawEntities \<Rightarrow>
   js_error + response \<times> appointment list" where
  "processTextParse L envTz appointments text entities =
     (if text = [] then Inl ZodError
      else respond L envTz appointments text ''text'' None entities)"

text \<open>\<open>validateExtractedText\<close> of the OCR service.\<close>

definition isAlphanumeric :: "char \<Rightarrow> bool" where
  "isAlphanumeric c =
     (c \<in> set ''abcdefghijklmnopqrstuvwxyzABCDEFGHIJKLMNOPQRSTUVWXYZ0123456789'')"

definition validateExtractedText :: "string \<Rightarrow> bool" where
  "validateExtractedText text =
     (if text = [] then False
      else let trimmed = trim text in
        if length trimmed < 3 then False
        else list_ex isAlphanumeric trimmed)"

text \<open>\<open>processImageUpload\<close>: \<open>file\<close> is the path of the uploaded file, \<open>ocr\<close> what
  the OCR call gave (the text and its confidence, or a throw).\<close>

definition processImageUpload ::
  "library \<Rightarrow> string option \<Rightarrow> appointment list \<Rightarrow> string option \<Rightarrow>
   js_error + string \<times> real \<Rightarrow> rawEntities \<Rightarrow> js_error + response \<times> appointment list" where
  "processImageUpload L envTz appointments file ocr entities =
     (case file of
        None \<Rightarrow> Inl (Error ''No image file'')
      | Some path \<Rightarrow>
          (case ocr of
             Inl e \<Rightarrow> Inl e
           | Inr (ocrText, ocrConfidence) \<Rightarrow>
               if \<not> validateExtractedText ocrText
               then Inl (Error ''Could not extract meaningful text from image'')
               else respond L envTz appointments ocrText ''image'' (Some path) entities))"

section \<open>Notions of the specification, and example inputs\<close>

text \<open>A phrase "contains a digit-colon-two-digits substring".\<close>

definition colonTimeAt :: "string \<Rightarrow> bool" where
  "colonTimeAt s =
     (\<exists>a b c rest. s = a # CHR '':'' # b # c # rest \<and> isDigit a \<and> isDigit b \<and> isDigit c)"

definition hasColonTime :: "string \<Rightarrow> bool" where
  "hasColonTime s =
     (\<exists>pre a b c post. s = pre @ a # CHR '':'' # b # c # post \<and>
        isDigit a \<and> isDigit b \<and> isDigit c)"

text \<open>The request of the specification's example, and the same request with an empty
  date phrase.\<close>

definition clearRequest :: rawEntities where
  "clearRequest = \<lparr>date_phrase = Some ''today'', time_phrase = Some ''3pm'',
     department = Some ''Dentist'', confidence = 0.9, is_clear = True\<rparr>"

definition emptyDateRequest :: rawEntities where
  "emptyDateRequest = \<lparr>date_phrase = Some [], time_phrase = Some ''3pm'',
     department = Some ''Dentist'', confidence = 0.9, is_clear = True\<rparr>"

text \<open>Example inputs. The library of the examples has a host whose local time skips
  nothing, knows the zone \<open>Asia/Kolkata\<close>, reads the clock as 2026-01-20 00:00 there (a
  Tuesday; day 20473 after 1970-01-01), and parses the one date string \<open>2026-01-25\<close>.\<close>

definition exampleLibrary :: library where
  "exampleLibrary =
     \<lparr>hostTime = (\<lambda>day ms. ms),
      zoneKnown = (\<lambda>tz. tz = ''Asia/Kolkata''),
      zoneError = (\<lambda>tz. None),
      zonedNow = (\<lambda>tz. \<lparr>dayNumber = 20473, msOfDay = 0\<rparr>),
      utcOf = (\<lambda>w tz. dayNumber w * 86400000 + msOfDay w - 19800000),
      parseWith = (\<lambda>s f r. if s = ''2026-01-25'' \<and> f = ''yyyy-MM-dd''
                            then Inr (Some \<lparr>dayNumber = 20478, msOfDay = 0\<rparr>) else Inr None),
      clock = 1768847400000\<rparr>"

text \<open>A library that accepts no zone and throws on every zone and on every
  \<open>parse\<close>.\<close>

definition throwingLibrary :: library where
  "throwingLibrary =
     \<lparr>hostTime = (\<lambda>day ms. ms),
      zoneKnown = (\<lambda>tz. False),
      zoneError = (\<lambda>tz. Some RangeError),
      zonedNow = (\<lambda>tz. \<lparr>dayNumber = 0, msOfDay = 0\<rparr>),
      utcOf = (\<lambda>w tz. 0),
      parseWith = (\<lambda>s f r. Inl RangeError),
      clock = 0\<rparr>"

definition dentistTomorrow :: rawEntities where
  "dentistTomorrow = \<lparr>date_phrase = Some ''tomorrow'', time_phrase = Some ''3pm'',
     department = Some ''Dentist'', confidence = 0.92, is_clear = True\<rparr>"

definition dentistSometime :: rawEntities where
  "dentistSometime = \<lparr>date_phrase = Some ''sometime'', time_phrase = Some ''3pm'',
     department = Some ''Dentist'', confidence = 0.9, is_clear = True\<rparr>"

text \<open>
  The routing decision in the specification's words: a tagged result, decided from the
  entities and the normalized data. \<open>realises\<close> says what a handler has done when it
  took a decision: on \<open>Clarify\<close> it replied with the message and left the list as it was;
  on \<open>Commit\<close> it replied \<open>ok\<close> and put a record with the normalized data at the head
  of the list.
\<close>

datatype decision = Clarify string | Commit normalized

definition spec_routing :: "rawEntities \<Rightarrow> normalized \<Rightarrow> decision" where
  "spec_routing entities normalized =
     (if needsClarification entities then Clarify (generateClarificationMessage entities)
      else if n_date normalized = None \<or> n_time normalized = None
        then Clarify ''Ambiguous date/time or department''
      else Commit normalized)"

definition realises :: "appointment list \<Rightarrow> decision \<Rightarrow> response \<times> appointment list \<Rightarrow> bool" where
  "realises appointments d out =
     (case d of
        Clarify message \<Rightarrow> out = (NeedsClarification message, appointments)
      | Commit normalized \<Rightarrow>
          (\<exists>body saved. out = (Ok body, saved # appointments) \<and>
             normalizedData saved = normalized \<and> status saved = ''success''))"



section \<open>The clarification gate: results\<close>

lemma falsy_iff: "falsy v \<longleftrightarrow> v = None \<or> v = Some []"
  by (cases v) (simp_all add: falsy_def)

text \<open>
  Claim C2, as the code has it. \<open>needsClarification\<close> returns true exactly when the
  confidence is below 0.6, or one of the date phrase, the time phrase and the department
  is null or the empty string, or \<open>is_clear\<close> is false; it returns false exactly when the
  confidence is at least 0.6, the three fields are non-empty strings and \<open>is_clear\<close> is
  true.
\<close>

theorem needsClarification_iff:
  "(needsClarification e \<longleftrightarrow>
      confidence e < 0.6 \<or>
      date_phrase e = None \<or> date_phrase e = Some [] \<or>
      time_phrase e = None \<or> time_phrase e = Some [] \<or>
      department e = None \<or> department e = Some [] \<or>
      \<not> is_clear e) \<and>
   (\<not> needsClarification e \<longleftrightarrow>
      confidence e \<ge> 0.6 \<and>
      (\<exists>d. date_phrase e = Some d \<and> d \<noteq> []) \<and>
      (\<exists>t. time_phrase e = Some t \<and> t \<noteq> []) \<and>
      (\<exists>x. department e = Some x \<and> x \<noteq> []) \<and>
      is_clear e)"
  unfolding needsClarification_def falsy_iff
  by (cases "date_phrase e"; cases "time_phrase e"; cases "department e") auto

theorem needsClarification_iff_witness:
  "needsClarification clearRequest = False"
  using needsClarification_iff [of clearRequest] by (simp add: clearRequest_def)

text \<open>
  Claim C2 as the specification words it fails on a request whose date phrase is the
  empty string: no field is null, the confidence is 0.9 and \<open>is_clear\<close> is true, and
  \<open>needsClarification\<close> returns true.
\<close>

theorem needsClarification_empty_phrase:
  "needsClarification emptyDateRequest \<and>
   \<not> (confidence emptyDateRequest < 0.6 \<or> date_phrase emptyDateRequest = None \<or>
      time_phrase emptyDateRequest = None \<or> department emptyDateRequest = None \<or>
      is_clear emptyDateRequest = False)"
  by (simp add: emptyDateRequest_def needsClarification_def falsy_def)

section \<open>The time patterns: results\<close>

lemma isDigit_colon: "\<not> isDigit (CHR '':'')"
  by (simp add: isDigit_def)

lemma list_upto5_cases:
  obtains (short) "length s < 4"
  | (four) a b c d where "s = [a, b, c, d]"
  | (long) a b c d e r where "s = a # b # c # d # e # r"
proof (cases s)
  case Nil then show ?thesis using short by simp
next
  case (Cons a s1)
  show ?thesis
  proof (cases s1)
    case Nil then show ?thesis using short Cons by simp
  next
    case (Cons b s2)
    note s1 = this
    show ?thesis
    proof (cases s2)
      case Nil then show ?thesis using short s1 \<open>s = a # s1\<close> by simp
    next
      case (Cons c s3)
      note s2 = this
      show ?thesis
      proof (cases s3)
        case Nil then show ?thesis using short s1 s2 \<open>s = a # s1\<close> by simp
      next
        case (Cons d s4)
        then show ?thesis using four long s1 s2 \<open>s = a # s1\<close> by (cases s4) auto
      qed
    qed
  qed
qed

lemma time24At_None_iff:
  "time24At s = None \<longleftrightarrow>
     \<not> colonTimeAt s \<and> \<not> (\<exists>a t. s = a # t \<and> isDigit a \<and> colonTimeAt t)"
  by (cases s rule: list_upto5_cases)
     (auto simp: time24At_def digitsAt_def colonTimeAt_def isDigit_colon numeral_2_eq_2)

lemma colonTimeAt_hasColonTime: "colonTimeAt s \<Longrightarrow> hasColonTime s"
  unfolding colonTimeAt_def hasColonTime_def by (metis append_Nil)

lemma hasColonTime_Nil: "\<not> hasColonTime []"
  by (simp add: hasColonTime_def)

lemma hasColonTime_Cons: "hasColonTime (x # xs) \<longleftrightarrow> colonTimeAt (x # xs) \<or> hasColonTime xs"
proof
  assume "hasColonTime (x # xs)"
  then obtain pre a b c post where
    eq: "x # xs = pre @ a # CHR '':'' # b # c # post" and d: "isDigit a" "isDigit b" "isDigit c"
    unfolding hasColonTime_def by blast
  show "colonTimeAt (x # xs) \<or> hasColonTime xs"
  proof (cases pre)
    case Nil
    with eq d show ?thesis unfolding colonTimeAt_def by auto
  next
    case (Cons y pre')
    with eq have "xs = pre' @ a # CHR '':'' # b # c # post" by simp
    with d show ?thesis unfolding hasColonTime_def by blast
  qed
next
  assume "colonTimeAt (x # xs) \<or> hasColonTime xs"
  then show "hasColonTime (x # xs)"
  proof
    assume "colonTimeAt (x # xs)" then show ?thesis by (rule colonTimeAt_hasColonTime)
  next
    assume "hasColonTime xs"
    then obtain pre a b c post where
      "xs = pre @ a # CHR '':'' # b # c # post" "isDigit a" "isDigit b" "isDigit c"
      unfolding hasColonTime_def by blast
    then have "x # xs = (x # pre) @ a # CHR '':'' # b # c # post \<and> isDigit a \<and> isDigit b \<and> isDigit c"
      by simp
    then show ?thesis unfolding hasColonTime_def by blast
  qed
qed

lemma time24Match_None_iff: "time24Match s = None \<longleftrightarrow> \<not> hasColonTime s"
proof (induction s)
  case Nil
  show ?case by (simp add: hasColonTime_Nil)
next
  case (Cons x xs)
  have "time24Match (x # xs) = None \<longleftrightarrow> time24At (x # xs) = None \<and> time24Match xs = None"
    by (simp split: option.splits)
  also have "\<dots> \<longleftrightarrow> \<not> colonTimeAt (x # xs) \<and> \<not> hasColonTime xs"
    using Cons.IH colonTimeAt_hasColonTime by (auto simp: time24At_None_iff)
  finally show ?case by (simp add: hasColonTime_Cons)
qed

lemma normalizeTimePhrase_24:
  "tp \<noteq> [] \<Longrightarrow> time24Match (trim (toLowerCase tp)) = Some (h, m) \<Longrightarrow>
     normalizeTimePhrase (Some tp) = Inr (timeResult (parseInt h) (parseInt m))"
  by (simp add: normalizeTimePhrase_def)

lemmas string_eval =
  trim_def toLowerCase_def lowerChar_def isWhiteSpace_def isDigit_def digitsAt_def

lemmas time_eval =
  time24At_def time12At_def minutesMeridiemAt_def meridiemAt_def timeResult_def hours12_def
  parseInt_def digitValue_def padStart_def decimal.simps digitChar_def

lemma normalizeTimePhrase_330pm:
  "normalizeTimePhrase (Some ''3:30pm'') =
     Inr (Some \<lparr>ti_time = ''03:30'', ti_hours = 3, ti_minutes = 30\<rparr>)"
  by (simp add: normalizeTimePhrase_def string_eval time_eval)

text \<open>
  Claim C10. A phrase with a colon pattern and an am/pm suffix is read by the 24-hour
  pattern and its suffix is ignored: \<open>3:30pm\<close> gives hour 3, minute 30, time \<open>03:30\<close>.
  Whenever the 24-hour pattern matches, the result comes from its two groups alone; and
  the 24-hour pattern fails, so that the 12-hour branch is reached, exactly when the
  phrase has no digit-colon-two-digits substring.
\<close>

theorem colon_time_wins:
  "normalizeTimePhrase (Some ''3:30pm'') =
     Inr (Some \<lparr>ti_time = ''03:30'', ti_hours = 3, ti_minutes = 30\<rparr>) \<and>
   (\<forall>tp h m. tp \<noteq> [] \<and> time24Match (trim (toLowerCase tp)) = Some (h, m) \<longrightarrow>
      normalizeTimePhrase (Some tp) = Inr (timeResult (parseInt h) (parseInt m))) \<and>
   (\<forall>s. time24Match s = None \<longleftrightarrow> \<not> hasColonTime s)"
  using normalizeTimePhrase_330pm normalizeTimePhrase_24 time24Match_None_iff by blast

theorem colon_time_wins_witness:
  "time24Match (trim (toLowerCase ''10:15 AM'')) = Some (''10'', ''15'') \<and>
   normalizeTimePhrase (Some ''10:15 AM'') =
     Inr (Some \<lparr>ti_time = ''10:15'', ti_hours = 10, ti_minutes = 15\<rparr>)"
proof -
  have m: "time24Match (trim (toLowerCase ''10:15 AM'')) = Some (''10'', ''15'')"
    by (simp add: string_eval time_eval)
  have "normalizeTimePhrase (Some ''10:15 AM'') =
          Inr (timeResult (parseInt ''10'') (parseInt ''15''))"
    using colon_time_wins m by blast
  then show ?thesis using m by (simp add: time_eval)
qed

text \<open>
  Claim C3 at the phrase \<open>noon\<close>: neither time pattern matches, \<open>hours\<close> and \<open>minutes\<close>
  keep their initial value 0, the range check passes, and \<open>normalizeTimePhrase\<close> returns
  the time \<open>00:00\<close> where the claim says \<open>null\<close>.
\<close>

theorem unmatched_time_is_midnight:
  "time24Match (trim (toLowerCase ''noon'')) = None \<and>
   time12Match (trim (toLowerCase ''noon'')) = None \<and>
   normalizeTimePhrase (Some ''noon'') =
     Inr (Some \<lparr>ti_time = ''00:00'', ti_hours = 0, ti_minutes = 0\<rparr>)"
  by (simp add: normalizeTimePhrase_def string_eval time_eval)

section \<open>The parsers and \<open>normalizeEntities\<close>: results\<close>

text \<open>Neither parser throws: the \<open>try\<close> blocks catch what the library calls throw.\<close>

lemma normalizeTimePhrase_returns: "\<exists>r. normalizeTimePhrase p = Inr r"
  by (auto simp: normalizeTimePhrase_def Let_def split: option.splits prod.splits)

lemma normalizeDatePhrase_returns: "\<exists>r. normalizeDatePhrase L p tz = Inr r"
  by (auto simp: normalizeDatePhrase_def split: option.splits sum.splits)

lemma format_ymd_nonempty: "format_ymd d = Inr s \<Longrightarrow> s \<noteq> []"
  by (auto simp: format_ymd_def split: option.splits prod.splits)

lemma format_ymd_valid: "format_ymd d = Inr s \<Longrightarrow> \<exists>w. d = Some w"
  by (auto simp: format_ymd_def split: option.splits prod.splits)

lemma format_ymd_returns: "\<exists>s. format_ymd (Some w) = Inr s"
  by (auto simp: format_ymd_def split: option.splits prod.splits)

lemma timeResult_nonempty: "timeResult h m = Some ti \<Longrightarrow> ti_time ti \<noteq> []"
  by (auto simp: timeResult_def split: if_splits)

lemma normalizeTimePhrase_nonempty:
  "normalizeTimePhrase p = Inr (Some ti) \<Longrightarrow> ti_time ti \<noteq> []"
  by (auto simp: normalizeTimePhrase_def Let_def timeResult_nonempty
      split: option.splits prod.splits if_splits)

lemma parse_valid:
  "parse L s f now = Inr (Some w) \<Longrightarrow> \<exists>r. now = Some r \<and> parseWith L s f r = Inr (Some w)"
  by (cases now) (simp_all add: parse_def)

lemma tryFormats_Some:
  "tryFormats L p now fs = Some d \<Longrightarrow>
     \<exists>w f. d = Some w \<and> f \<in> set fs \<and> parse L p f now = Inr (Some w)"
  by (induction fs) (auto split: sum.splits option.splits)

lemma tryFormats_None:
  "tryFormats L p now fs = None \<longleftrightarrow> (\<forall>f \<in> set fs. \<forall>w. parse L p f now \<noteq> Inr (Some w))"
  by (induction fs) (auto split: sum.splits option.splits)

lemma utcToZonedTime_valid: "utcToZonedTime L tz = Inr (Some w) \<Longrightarrow> zoneKnown L tz"
  by (auto simp: utcToZonedTime_def unknownZone_def split: if_splits option.splits)

lemma targetDate_valid_now:
  assumes "targetDate L p now = Some (Some w)"
  shows "now \<noteq> None"
proof
  assume now: "now = None"
  have "tryFormats L p None formats \<noteq> Some (Some w)"
    using tryFormats_Some [of L p None formats "Some w"] by (auto simp: parse_def)
  with assms now show False
    by (auto simp: targetDate_def Let_def startOfDay_def add_days_def getDay_def
        split: if_splits option.splits)
qed

lemma normalizeDatePhrase_Some:
  assumes "normalizeDatePhrase L p tz = Inr (Some di)"
  shows "\<exists>q now w. p = Some q \<and> q \<noteq> [] \<and> utcToZonedTime L tz = Inr now \<and>
           targetDate L q now = Some (Some w) \<and>
           di_datetime di = Some w \<and> format_ymd (Some w) = Inr (di_date di)"
proof -
  from assms obtain q now d s where q: "p = Some q" "q \<noteq> []"
    and now: "utcToZonedTime L tz = Inr now"
    and d: "targetDate L q now = Some d" and s: "format_ymd d = Inr s"
    and di: "di = \<lparr>di_date = s, di_datetime = d\<rparr>"
    by (auto simp: normalizeDatePhrase_def normalizeDatePhrase_try_def
        split: option.splits sum.splits if_splits)
  from s obtain w where "d = Some w" using format_ymd_valid by blast
  with q now d s di show ?thesis by simp
qed

lemma normalizeDatePhrase_Some_facts:
  assumes "normalizeDatePhrase L p tz = Inr (Some di)"
  shows "zoneKnown L tz" and "di_datetime di \<noteq> None" and "di_date di \<noteq> []"
proof -
  from normalizeDatePhrase_Some [OF assms] obtain q now w where
    now: "utcToZonedTime L tz = Inr now" and td: "targetDate L q now = Some (Some w)"
    and di: "di_datetime di = Some w" "format_ymd (Some w) = Inr (di_date di)"
    by blast
  from td have "now \<noteq> None" by (rule targetDate_valid_now)
  with now show "zoneKnown L tz" using utcToZonedTime_valid by fastforce
  from di show "di_datetime di \<noteq> None" by simp
  from di show "di_date di \<noteq> []" using format_ymd_nonempty by blast
qed

lemma toISOString_returns: "\<exists>s. toISOString (Some ms) = Inr s"
  by (auto simp: toISOString_def Let_def split: prod.splits)

lemma compose_returns:
  assumes "zoneKnown L tz" and "di_datetime di \<noteq> None"
  shows "\<exists>s. compose L di ti tz = Inr s"
  using assms toISOString_returns
  by (auto simp: compose_def Let_def zonedTimeToUtc_def setHours_def setMinutes_def)

lemma orNull_Some: "s \<noteq> [] \<Longrightarrow> orNull (Some s) = Some s"
  by (simp add: orNull_def falsy_def)

lemma orNull_None: "orNull None = None"
  by (simp add: orNull_def falsy_def)

lemma orNull_not_empty: "orNull v \<noteq> Some []"
  by (cases v) (auto simp: orNull_def falsy_def)

text \<open>What \<open>normalizeEntities\<close> returns, once the throws are ruled out and the
  \<open>|| null\<close> tests are resolved (a date or time string of a parser is never empty).\<close>

lemma normalizeEntities_result:
  "\<exists>dateInfo timeInfo.
     normalizeDatePhrase L (date_phrase e) tz = Inr dateInfo \<and>
     normalizeTimePhrase (time_phrase e) = Inr timeInfo \<and>
     normalizeEntities L e tz =
       Inr \<lparr>n_date = map_option di_date dateInfo,
            n_time = map_option ti_time timeInfo,
            n_datetime =
              (case (dateInfo, timeInfo) of
                 (Some di, Some ti) \<Rightarrow>
                   (case compose L di ti tz of Inl err \<Rightarrow> None | Inr s \<Rightarrow> Some s)
               | _ \<Rightarrow> None),
            n_department = department e,
            n_timezone = tz\<rparr>"
proof -
  obtain dateInfo where d: "normalizeDatePhrase L (date_phrase e) tz = Inr dateInfo"
    using normalizeDatePhrase_returns by blast
  obtain timeInfo where t: "normalizeTimePhrase (time_phrase e) = Inr timeInfo"
    using normalizeTimePhrase_returns by blast
  have dn: "orNull (map_option di_date dateInfo) = map_option di_date dateInfo"
  proof (cases dateInfo)
    case None then show ?thesis by (simp add: orNull_None)
  next
    case (Some di)
    with d have "di_date di \<noteq> []" using normalizeDatePhrase_Some_facts(3) by blast
    with Some show ?thesis by (simp add: orNull_Some)
  qed
  have tn: "orNull (map_option ti_time timeInfo) = map_option ti_time timeInfo"
    using t by (cases timeInfo) (auto simp: orNull_None orNull_Some dest: normalizeTimePhrase_nonempty)
  show ?thesis
    using d t dn tn by (simp add: normalizeEntities_def Let_def)
qed


text \<open>Evaluation of the examples.\<close>

lemma normalizeEntities_example:
  "normalizeEntities exampleLibrary dentistTomorrow ''Asia/Kolkata'' =
     Inr \<lparr>n_date = Some ''2026-01-21'', n_time = Some ''15:00'',
          n_datetime = Some ''2026-01-21T09:30:00.000Z'',
          n_department = Some ''Dentist'', n_timezone = ''Asia/Kolkata''\<rparr>"
  by code_simp

text \<open>
  Claim C9. \<open>normalizeEntities\<close> always returns and never throws, for every library
  behaviour (a \<open>parse\<close> that throws included), and so do the two parsers. The department
  and the time zone are those of the input; the date is the date parser's or null; the
  time is the time parser's or null; the instant is null unless both parsers gave a
  result and the composition returned.
\<close>

theorem normalizeEntities_total:
  "(\<exists>r. normalizeDatePhrase L (date_phrase e) tz = Inr r) \<and>
   (\<exists>r. normalizeTimePhrase (time_phrase e) = Inr r) \<and>
   (\<exists>n. normalizeEntities L e tz = Inr n \<and>
      n_department n = department e \<and>
      n_timezone n = tz \<and>
      n_date n = (case normalizeDatePhrase L (date_phrase e) tz of
                    Inr (Some di) \<Rightarrow> Some (di_date di) | _ \<Rightarrow> None) \<and>
      n_time n = (case normalizeTimePhrase (time_phrase e) of
                    Inr (Some ti) \<Rightarrow> Some (ti_time ti) | _ \<Rightarrow> None) \<and>
      n_datetime n =
        (case (normalizeDatePhrase L (date_phrase e) tz, normalizeTimePhrase (time_phrase e)) of
           (Inr (Some di), Inr (Some ti)) \<Rightarrow>
             (case compose L di ti tz of Inr s \<Rightarrow> Some s | Inl err \<Rightarrow> None)
         | _ \<Rightarrow> None))"
proof -
  obtain dateInfo timeInfo where
    d: "normalizeDatePhrase L (date_phrase e) tz = Inr dateInfo" and
    t: "normalizeTimePhrase (time_phrase e) = Inr timeInfo" and
    n: "normalizeEntities L e tz =
       Inr \<lparr>n_date = map_option di_date dateInfo,
            n_time = map_option ti_time timeInfo,
            n_datetime =
              (case (dateInfo, timeInfo) of
                 (Some di, Some ti) \<Rightarrow>
                   (case compose L di ti tz of Inl err \<Rightarrow> None | Inr s \<Rightarrow> Some s)
               | _ \<Rightarrow> None),
            n_department = department e,
            n_timezone = tz\<rparr>"
    using normalizeEntities_result by blast
  show ?thesis
    unfolding d t n by (cases dateInfo; cases timeInfo) (simp_all split: sum.splits)
qed

theorem normalizeEntities_total_witness:
  "normalizeEntities throwingLibrary dentistTomorrow ''Mars/Olympus'' =
     Inr \<lparr>n_date = None, n_time = Some ''15:00'', n_datetime = None,
          n_department = Some ''Dentist'', n_timezone = ''Mars/Olympus''\<rparr>"
proof -
  have d: "normalizeDatePhrase throwingLibrary (date_phrase dentistTomorrow) ''Mars/Olympus'' =
      Inr None"
    by code_simp
  have t: "normalizeTimePhrase (time_phrase dentistTomorrow) =
      Inr (Some \<lparr>ti_time = ''15:00'', ti_hours = 15, ti_minutes = 0\<rparr>)"
    by code_simp
  have dep: "department dentistTomorrow = Some ''Dentist''"
    by (simp add: dentistTomorrow_def)
  from normalizeEntities_total [of throwingLibrary dentistTomorrow "''Mars/Olympus''"]
  obtain n where "normalizeEntities throwingLibrary dentistTomorrow ''Mars/Olympus'' = Inr n"
    and "n_department n = Some ''Dentist''" and "n_timezone n = ''Mars/Olympus''"
    and "n_date n = None" and "n_time n = Some ''15:00''" and "n_datetime n = None"
    unfolding d t dep by auto
  then show ?thesis by (cases n) simp
qed

lemma normalizeEntities_datetime_iff:
  assumes "normalizeEntities L e tz = Inr n"
  shows "n_datetime n \<noteq> None \<longleftrightarrow> n_date n \<noteq> None \<and> n_time n \<noteq> None"
proof -
  obtain dateInfo timeInfo where
    d: "normalizeDatePhrase L (date_phrase e) tz = Inr dateInfo" and
    n: "normalizeEntities L e tz =
       Inr \<lparr>n_date = map_option di_date dateInfo,
            n_time = map_option ti_time timeInfo,
            n_datetime =
              (case (dateInfo, timeInfo) of
                 (Some di, Some ti) \<Rightarrow>
                   (case compose L di ti tz of Inl err \<Rightarrow> None | Inr s \<Rightarrow> Some s)
               | _ \<Rightarrow> None),
            n_department = department e,
            n_timezone = tz\<rparr>"
    using normalizeEntities_result by blast
  show ?thesis
  proof (cases dateInfo)
    case None
    with n assms show ?thesis by auto
  next
    case (Some di)
    note di = this
    show ?thesis
    proof (cases timeInfo)
      case None
      with n assms di show ?thesis by auto
    next
      case (Some ti)
      from d di have "zoneKnown L tz" "di_datetime di \<noteq> None"
        using normalizeDatePhrase_Some_facts by blast+
      then obtain s where "compose L di ti tz = Inr s"
        using compose_returns by blast
      with n assms di Some show ?thesis by auto
    qed
  qed
qed

text \<open>
  Claim C4. The normalized data have a non-null \<open>datetime\<close> if and only if both \<open>date\<close>
  and \<open>time\<close> are non-null: a date is only produced in a zone the library knows, and in
  such a zone the composition of a valid date returns.
\<close>

theorem datetime_iff_date_and_time:
  "\<exists>n. normalizeEntities L e tz = Inr n \<and>
       (n_datetime n \<noteq> None \<longleftrightarrow> n_date n \<noteq> None \<and> n_time n \<noteq> None)"
  using normalizeEntities_result [of L e tz] normalizeEntities_datetime_iff by metis

theorem datetime_iff_date_and_time_witness:
  "\<exists>n. normalizeEntities exampleLibrary dentistTomorrow ''Asia/Kolkata'' = Inr n \<and>
       n_date n = Some ''2026-01-21'' \<and> n_time n = Some ''15:00'' \<and> n_datetime n \<noteq> None"
  using datetime_iff_date_and_time [of exampleLibrary dentistTomorrow "''Asia/Kolkata''"]
    normalizeEntities_example by simp

section \<open>\<open>normalizeDatePhrase\<close>: results\<close>

lemma str_includes_sublist: "str_includes s sub \<longleftrightarrow> sublist sub s"
  by (induction s) (auto simp: sublist_Cons_right)

lemma day_after_tomorrow_includes_tomorrow:
  "str_includes phrase ''day after tomorrow'' \<Longrightarrow> str_includes phrase ''tomorrow''"
proof -
  have "sublist ''tomorrow'' ''day after tomorrow''"
    unfolding sublist_def by (intro exI [of _ "''day after ''"] exI [of _ "[]"]) simp
  then show "str_includes phrase ''day after tomorrow'' \<Longrightarrow> str_includes phrase ''tomorrow''"
    unfolding str_includes_sublist by (rule sublist_order.order.trans)
qed

text \<open>An unmatched date phrase gives \<open>null\<close>: no keyword, and no format that parses.\<close>

lemma unmatched_date_is_null:
  assumes "\<not> str_includes (trim (toLowerCase p)) ''today''"
    and "\<not> str_includes (trim (toLowerCase p)) ''tomorrow''"
    and "\<not> str_includes (trim (toLowerCase p)) ''next''"
    and "\<forall>now. utcToZonedTime L tz = Inr now \<longrightarrow>
           (\<forall>f \<in> set formats. \<forall>w. parse L p f now \<noteq> Inr (Some w))"
  shows "normalizeDatePhrase L (Some p) tz = Inr None"
proof (cases "utcToZonedTime L tz")
  case (Inl e)
  then show ?thesis
    by (simp add: normalizeDatePhrase_def normalizeDatePhrase_try_def)
next
  case (Inr now)
  with assms(4) have "tryFormats L p now formats = None"
    by (simp add: tryFormats_None)
  moreover have "\<not> str_includes (trim (toLowerCase p)) ''day after tomorrow''"
    using assms(2) day_after_tomorrow_includes_tomorrow by blast
  ultimately have "targetDate L p now = None"
    using assms(1-3) by (simp add: targetDate_def Let_def)
  with Inr show ?thesis
    by (simp add: normalizeDatePhrase_def normalizeDatePhrase_try_def)
qed

text \<open>The third test of the chain in targetDate never decides.\<close>

lemma targetDate_without_third_branch:
  "targetDate L datePhrase now =
     (let phrase = trim (toLowerCase datePhrase)
      in
        if str_includes phrase ''today'' then Some (startOfDay L now)
        else if str_includes phrase ''tomorrow''
          then Some (add_days L (startOfDay L now) (Some 1))
        else if str_includes phrase ''next'' then
          (case find (\<lambda>day. str_includes phrase day) days of
             None \<Rightarrow> None
           | Some dayMatch \<Rightarrow>
               (let targetDayIndex = indexOf days dayMatch;
                    currentDayIndex = getDay now;
                    daysToAdd = map_option (\<lambda>c. targetDayIndex - c) currentDayIndex;
                    daysToAdd' = map_option (\<lambda>n. if n \<le> 0 then n + 7 else n) daysToAdd
                in Some (add_days L (startOfDay L now) daysToAdd')))
        else tryFormats L datePhrase now formats)"
  using day_after_tomorrow_includes_tomorrow by (auto simp: targetDate_def Let_def)

lemma targetDate_day_after_tomorrow:
  "targetDate L ''day after tomorrow'' now = Some (add_days L (startOfDay L now) (Some 1))"
  by (simp add: targetDate_def string_eval)

lemma targetDate_tomorrow:
  "targetDate L ''tomorrow'' now = Some (add_days L (startOfDay L now) (Some 1))"
  by (simp add: targetDate_def string_eval)

text \<open>
  Claim C5 at the phrase \<open>day after tomorrow\<close>. The test for \<open>tomorrow\<close> comes before the
  test for \<open>day after tomorrow\<close> and decides first, so the phrase is read as
  \<open>tomorrow\<close>: with the clock at 2026-01-20 the result is 2026-01-21, one day ahead,
  where the claim says two.
\<close>

theorem day_after_tomorrow_is_tomorrow:
  "normalizeDatePhrase L (Some ''day after tomorrow'') tz =
     normalizeDatePhrase L (Some ''tomorrow'') tz \<and>
   utcToZonedTime exampleLibrary ''Asia/Kolkata'' =
     Inr (Some \<lparr>dayNumber = 20473, msOfDay = 0\<rparr>) \<and>
   normalizeDatePhrase exampleLibrary (Some ''day after tomorrow'') ''Asia/Kolkata'' =
     Inr (Some \<lparr>di_date = ''2026-01-21'',
                di_datetime = Some \<lparr>dayNumber = 20474, msOfDay = 0\<rparr>\<rparr>)"
proof -
  have "normalizeDatePhrase_try L ''day after tomorrow'' tz =
     normalizeDatePhrase_try L ''tomorrow'' tz"
    by (cases "utcToZonedTime L tz")
       (simp_all add: normalizeDatePhrase_try_def targetDate_day_after_tomorrow
          targetDate_tomorrow)
  then have "normalizeDatePhrase L (Some ''day after tomorrow'') tz =
     normalizeDatePhrase L (Some ''tomorrow'') tz"
    by (simp add: normalizeDatePhrase_def)
  moreover have "utcToZonedTime exampleLibrary ''Asia/Kolkata'' =
      Inr (Some \<lparr>dayNumber = 20473, msOfDay = 0\<rparr>)"
    by (simp add: utcToZonedTime_def exampleLibrary_def)
  moreover have "normalizeDatePhrase exampleLibrary (Some ''day after tomorrow'') ''Asia/Kolkata'' =
     Inr (Some \<lparr>di_date = ''2026-01-21'',
                di_datetime = Some \<lparr>dayNumber = 20474, msOfDay = 0\<rparr>\<rparr>)"
    by code_simp
  ultimately show ?thesis by blast
qed

lemma indexOf_days:
  assumes "w \<in> set days"
  shows "0 \<le> indexOf days w" and "indexOf days w \<le> 6" and "days ! nat (indexOf days w) = w"
  using assms by (auto simp: days_def)

lemma find_days:
  "find (\<lambda>day. str_includes phrase day) days = Some w \<Longrightarrow> w \<in> set days \<and> str_includes phrase w"
  by (auto simp: find_Some_iff)

lemma next_weekday_arith:
  fixes d i :: int
  assumes "0 \<le> i" "i \<le> 6"
  defines "c \<equiv> (d + 4) mod 7"
  defines "k \<equiv> (if i - c \<le> 0 then i - c + 7 else i - c)"
  shows "1 \<le> k" and "k \<le> 7" and "(d + k + 4) mod 7 = i"
    and "k = (let r = (i - c) mod 7 in if r \<le> 0 then r + 7 else r)"
proof -
  have c: "0 \<le> c" "c \<le> 6" unfolding c_def by simp_all
  show "1 \<le> k" "k \<le> 7" using c assms(1,2) unfolding k_def by auto
  have "(d + k + 4) mod 7 = ((d + 4) + (i - c)) mod 7"
  proof (cases "i - c \<le> 0")
    case True
    then have "d + k + 4 = ((d + 4) + (i - c)) + 7" by (simp add: k_def)
    then show ?thesis by (metis mod_add_self2)
  next
    case False
    then show ?thesis by (simp add: k_def algebra_simps)
  qed
  also have "\<dots> = ((d + 4) mod 7 + (i - c)) mod 7"
    by (rule mod_add_left_eq [symmetric])
  also have "\<dots> = (c + (i - c)) mod 7"
    by (simp only: c_def)
  also have "\<dots> = i" using assms(1,2) by simp
  finally show "(d + k + 4) mod 7 = i" .
  show "k = (let r = (i - c) mod 7 in if r \<le> 0 then r + 7 else r)"
  proof (cases "i - c \<le> 0")
    case True
    show ?thesis
    proof (cases "i = c")
      case True then show ?thesis by (simp add: k_def)
    next
      case False
      with True have lt: "i - c < 0" by simp
      have "(i - c) mod 7 = (i - c + 7) mod 7" by simp
      also have "\<dots> = i - c + 7"
      proof (rule mod_pos_pos_trivial)
        show "0 \<le> i - c + 7" using c assms(1) by linarith
        show "i - c + 7 < 7" using lt by linarith
      qed
      finally have r: "(i - c) mod 7 = i - c + 7" .
      from True lt c(2) assms(1) show ?thesis unfolding k_def Let_def r by simp
    qed
  next
    case False
    have r: "(i - c) mod 7 = i - c"
    proof (rule mod_pos_pos_trivial)
      show "0 \<le> i - c" using False by linarith
      show "i - c < 7" using c assms(2) by linarith
    qed
    from False show ?thesis unfolding k_def Let_def r by simp
  qed
qed

text \<open>The seven phrases \<open>next sunday\<close> to \<open>next saturday\<close> reach the \<open>next\<close> test and
  name their weekday.\<close>

lemma next_weekday_phrases:
  assumes "w \<in> set days"
  shows "\<not> str_includes (trim (toLowerCase (''next '' @ w))) ''today'' \<and>
         \<not> str_includes (trim (toLowerCase (''next '' @ w))) ''tomorrow'' \<and>
         str_includes (trim (toLowerCase (''next '' @ w))) ''next'' \<and>
         find (\<lambda>day. str_includes (trim (toLowerCase (''next '' @ w))) day) days = Some w"
proof -
  have "list_all (\<lambda>w.
          \<not> str_includes (trim (toLowerCase (''next '' @ w))) ''today'' \<and>
          \<not> str_includes (trim (toLowerCase (''next '' @ w))) ''tomorrow'' \<and>
          str_includes (trim (toLowerCase (''next '' @ w))) ''next'' \<and>
          find (\<lambda>day. str_includes (trim (toLowerCase (''next '' @ w))) day) days = Some w) days"
    by code_simp
  with assms show ?thesis by (simp add: list_all_iff)
qed

lemma next_friday_example:
  "normalizeDatePhrase exampleLibrary (Some ''Next Friday'') ''Asia/Kolkata'' =
     Inr (Some \<lparr>di_date = ''2026-01-23'',
                di_datetime = Some \<lparr>dayNumber = 20476, msOfDay = 0\<rparr>\<rparr>)"
  by code_simp

text \<open>
  Claim C6. For a phrase that reaches the \<open>next\<close> test (it holds neither \<open>today\<close> nor
  \<open>tomorrow\<close>), holds \<open>next\<close> and names a weekday, in a zone the library knows:
  the result is the date \<open>k\<close> days after the local date of now, at the start of that
  day on the host, with \<open>k\<close> from 1 to 7, it falls on the named weekday, and \<open>k\<close> is
  \<open>(weekdayIndex - currentWeekdayIndex) mod 7\<close> with 7 added when that is \<open>\<le> 0\<close>.
\<close>

theorem next_weekday:
  assumes "zoneKnown L tz"
    and "p \<noteq> []"
    and "\<not> str_includes (trim (toLowerCase p)) ''today''"
    and "\<not> str_includes (trim (toLowerCase p)) ''tomorrow''"
    and "str_includes (trim (toLowerCase p)) ''next''"
    and "find (\<lambda>day. str_includes (trim (toLowerCase p)) day) days = Some weekday"
  shows "\<exists>k di current.
           normalizeDatePhrase L (Some p) tz = Inr (Some di) \<and>
           di_datetime di =
             Some \<lparr>dayNumber = dayNumber (zonedNow L tz) + k,
                   msOfDay = hostTime L (dayNumber (zonedNow L tz) + k)
                               (hostTime L (dayNumber (zonedNow L tz)) 0)\<rparr> \<and>
           format_ymd (di_datetime di) = Inr (di_date di) \<and>
           1 \<le> k \<and> k \<le> 7 \<and>
           getDay (di_datetime di) = Some (indexOf days weekday) \<and>
           days ! nat (indexOf days weekday) = weekday \<and>
           getDay (Some (zonedNow L tz)) = Some current \<and>
           k = (let r = (indexOf days weekday - current) mod 7 in if r \<le> 0 then r + 7 else r)"
proof -
  define now where "now = zonedNow L tz"
  define i where "i = indexOf days weekday"
  define c where "c = (dayNumber now + 4) mod 7"
  define k where "k = (if i - c \<le> 0 then i - c + 7 else i - c)"
  define w where "w = \<lparr>dayNumber = dayNumber now + k,
      msOfDay = hostTime L (dayNumber now + k) (hostTime L (dayNumber now) 0)\<rparr>"
  have wd: "weekday \<in> set days" using assms(6) find_days by blast
  have i: "0 \<le> i" "i \<le> 6" "days ! nat i = weekday"
    using indexOf_days [OF wd] by (simp_all add: i_def)
  have zn: "utcToZonedTime L tz = Inr (Some now)"
    using assms(1) by (simp add: utcToZonedTime_def now_def)
  have p3: "\<not> str_includes (trim (toLowerCase p)) ''day after tomorrow''"
    using assms(4) day_after_tomorrow_includes_tomorrow by blast
  have td: "targetDate L p (Some now) = Some (Some w)"
    using assms(3-6) p3
    by (cases now)
       (simp add: targetDate_def Let_def startOfDay_def add_days_def setLocal_def getDay_def
          w_def k_def c_def i_def)
  obtain s where s: "format_ymd (Some w) = Inr s"
    using format_ymd_returns by blast
  have res: "normalizeDatePhrase L (Some p) tz = Inr (Some \<lparr>di_date = s, di_datetime = Some w\<rparr>)"
    using assms(2) td s zn
    by (simp add: normalizeDatePhrase_def normalizeDatePhrase_try_def)
  have k: "1 \<le> k" "k \<le> 7" "(dayNumber now + k + 4) mod 7 = i"
    "k = (let r = (i - c) mod 7 in if r \<le> 0 then r + 7 else r)"
    using next_weekday_arith [OF i(1,2), of "dayNumber now"] unfolding k_def c_def by blast+
  have cur: "getDay (Some (zonedNow L tz)) = Some c"
    by (simp add: getDay_def c_def now_def)
  have "getDay (Some w) = Some i"
    using k(3) by (simp add: getDay_def w_def)
  with res s k i cur show ?thesis
    unfolding w_def now_def i_def by (intro exI [of _ k] exI [of _ "\<lparr>di_date = s, di_datetime = Some w\<rparr>"] exI [of _ c]) (simp add: w_def now_def)
qed


theorem next_weekday_witness:
  "zoneKnown exampleLibrary ''Asia/Kolkata'' \<and>
   find (\<lambda>day. str_includes (trim (toLowerCase ''Next Friday'')) day) days = Some ''friday'' \<and>
   (\<exists>k. 1 \<le> k \<and> k \<le> 7 \<and>
      normalizeDatePhrase exampleLibrary (Some ''Next Friday'') ''Asia/Kolkata'' =
        Inr (Some \<lparr>di_date = ''2026-01-23'',
                   di_datetime = Some \<lparr>dayNumber = 20473 + k, msOfDay = 0\<rparr>\<rparr>) \<and>
      getDay (Some \<lparr>dayNumber = 20473 + k, msOfDay = 0\<rparr>) = Some 5)"
proof -
  have z: "zoneKnown exampleLibrary ''Asia/Kolkata''"
    by (simp add: exampleLibrary_def)
  have ne: "''Next Friday'' \<noteq> []" by simp
  have a: "\<not> str_includes (trim (toLowerCase ''Next Friday'')) ''today''"
    by (simp add: string_eval)
  have b: "\<not> str_includes (trim (toLowerCase ''Next Friday'')) ''tomorrow''"
    by (simp add: string_eval)
  have c: "str_includes (trim (toLowerCase ''Next Friday'')) ''next''"
    by (simp add: string_eval)
  have d: "find (\<lambda>day. str_includes (trim (toLowerCase ''Next Friday'')) day) days = Some ''friday''"
    by (simp add: string_eval days_def)
  have idx: "indexOf days ''friday'' = 5" by (simp add: days_def)
  have zn: "zonedNow exampleLibrary ''Asia/Kolkata'' = \<lparr>dayNumber = 20473, msOfDay = 0\<rparr>"
    by (simp add: exampleLibrary_def)
  have ht: "hostTime exampleLibrary = (\<lambda>day ms. ms)"
    by (simp add: exampleLibrary_def)
  from next_weekday [OF z ne a b c d]
  obtain k di where
    "normalizeDatePhrase exampleLibrary (Some ''Next Friday'') ''Asia/Kolkata'' = Inr (Some di)"
    "di_datetime di = Some \<lparr>dayNumber = 20473 + k, msOfDay = 0\<rparr>"
    "1 \<le> k" "k \<le> 7" "getDay (di_datetime di) = Some 5"
    unfolding idx zn ht by auto
  then show ?thesis
    using z d next_friday_example by auto
qed







section \<open>The controller: results\<close>

lemma normalizeEntities_not_empty:
  "normalizeEntities L e tz = Inr n \<Longrightarrow> n_date n \<noteq> Some [] \<and> n_time n \<noteq> Some []"
  by (auto simp: normalizeEntities_def Let_def orNull_not_empty split: sum.splits)

lemma respond_realises:
  assumes "normalizeEntities L e (timezoneArg envTz) = Inr n"
  shows "\<exists>out. respond L envTz appts txt src path e = Inr out \<and>
               realises appts (spec_routing e n) out"
proof -
  from normalizeEntities_not_empty [OF assms]
  have f: "falsy (n_date n) \<longleftrightarrow> n_date n = None" "falsy (n_time n) \<longleftrightarrow> n_time n = None"
    by (simp_all add: falsy_iff)
  show ?thesis
    using assms f
    by (simp add: respond_def spec_routing_def realises_def saveAppointment_def Let_def)
qed

text \<open>
  Claim C1. Both handlers route in this order: if \<open>needsClarification\<close> holds, the reply
  asks for clarification with the generated message; otherwise, if the normalized date
  or time is null, it asks with the fixed message; otherwise the appointment is
  committed with the normalized data.
\<close>

theorem routing_decision:
  "\<exists>n. normalizeEntities L e (timezoneArg envTz) = Inr n \<and>
     (txt \<noteq> [] \<longrightarrow>
        (\<exists>out. processTextParse L envTz appts txt e = Inr out \<and>
               realises appts (spec_routing e n) out)) \<and>
     (validateExtractedText ocrText \<longrightarrow>
        (\<exists>out. processImageUpload L envTz appts (Some path) (Inr (ocrText, c)) e = Inr out \<and>
               realises appts (spec_routing e n) out))"
proof -
  obtain n where n: "normalizeEntities L e (timezoneArg envTz) = Inr n"
    using normalizeEntities_result [of L e "timezoneArg envTz"] by blast
  have "txt \<noteq> [] \<longrightarrow>
        (\<exists>out. processTextParse L envTz appts txt e = Inr out \<and>
               realises appts (spec_routing e n) out)"
    using respond_realises [OF n] by (simp add: processTextParse_def)
  moreover have "validateExtractedText ocrText \<longrightarrow>
        (\<exists>out. processImageUpload L envTz appts (Some path) (Inr (ocrText, c)) e = Inr out \<and>
               realises appts (spec_routing e n) out)"
    using respond_realises [OF n] by (simp add: processImageUpload_def)
  ultimately show ?thesis using n by blast
qed

lemma normalizeEntities_sometime:
  "normalizeEntities exampleLibrary dentistSometime (timezoneArg None) =
     Inr \<lparr>n_date = None, n_time = Some ''15:00'', n_datetime = None,
          n_department = Some ''Dentist'', n_timezone = ''Asia/Kolkata''\<rparr>"
  by code_simp

lemma needsClarification_sometime: "\<not> needsClarification dentistSometime"
  by (simp add: needsClarification_def dentistSometime_def falsy_def)

theorem routing_decision_witness:
  "processTextParse exampleLibrary None [] ''Dentist sometime at 3pm'' dentistSometime =
     Inr (NeedsClarification ''Ambiguous date/time or department'', [])"
proof -
  have nonempty: "''Dentist sometime at 3pm'' \<noteq> []" by simp
  obtain n out where
    n: "normalizeEntities exampleLibrary dentistSometime (timezoneArg None) = Inr n" and
    out: "processTextParse exampleLibrary None [] ''Dentist sometime at 3pm'' dentistSometime =
            Inr out" and
    r: "realises [] (spec_routing dentistSometime n) out"
    using routing_decision [of exampleLibrary dentistSometime None
        "''Dentist sometime at 3pm''" "[]"] nonempty
    by blast
  from n have "n_date n = None" by (auto simp: normalizeEntities_sometime)
  with r have "out = (NeedsClarification ''Ambiguous date/time or department'', [])"
    using needsClarification_sometime by (simp add: spec_routing_def realises_def)
  with out show ?thesis by simp
qed

lemma respond_Ok_department:
  assumes n: "normalizeEntities L e (timezoneArg envTz) = Inr n"
    and ok: "respond L envTz appts txt src path e = Inr (Ok body, appts')"
  shows "find (\<lambda>v. v \<noteq> None) [n_department n, department e, Some ''General''] =
           Some (Some (a_department (ok_appointment body)))"
proof -
  from n ok have nc: "\<not> needsClarification e"
    by (auto simp: respond_def split: if_splits)
  then obtain x where x: "department e = Some x" "x \<noteq> []"
    by (auto simp: needsClarification_def falsy_iff split: if_splits)
  from n have nd: "n_department n = department e"
    using normalizeEntities_result [of L e "timezoneArg envTz"] by auto
  from n ok nc have "a_department (ok_appointment body) =
      departmentOr (n_department n) (department e)"
    by (auto simp: respond_def saveAppointment_def Let_def split: if_splits)
  with x nd show ?thesis
    by (simp add: departmentOr_def orNull_def falsy_def)
qed

lemma processTextParse_respond:
  "processTextParse L envTz appts txt e = Inr out \<Longrightarrow>
     respond L envTz appts txt ''text'' None e = Inr out"
  by (simp add: processTextParse_def split: if_splits)

lemma processImageUpload_respond:
  "processImageUpload L envTz appts file ocr e = Inr out \<Longrightarrow>
     \<exists>ocrText path. respond L envTz appts ocrText ''image'' (Some path) e = Inr out"
  by (auto simp: processImageUpload_def split: if_splits option.splits sum.splits prod.splits)

text \<open>
  Claim C8. In every committed reply, of either handler, the department is the first
  non-null value of the chain: the normalized department, the entities' department,
  \<open>General\<close>.
\<close>

theorem committed_department:
  "normalizeEntities L e (timezoneArg envTz) = Inr n \<Longrightarrow>
   (processTextParse L envTz appts txt e = Inr (Ok body, appts') \<longrightarrow>
      find (\<lambda>v. v \<noteq> None) [n_department n, department e, Some ''General''] =
        Some (Some (a_department (ok_appointment body)))) \<and>
   (processImageUpload L envTz appts file ocr e = Inr (Ok body, appts') \<longrightarrow>
      find (\<lambda>v. v \<noteq> None) [n_department n, department e, Some ''General''] =
        Some (Some (a_department (ok_appointment body))))"
proof (intro conjI impI)
  assume n: "normalizeEntities L e (timezoneArg envTz) = Inr n"
  {
    assume "processTextParse L envTz appts txt e = Inr (Ok body, appts')"
    then have "respond L envTz appts txt ''text'' None e = Inr (Ok body, appts')"
      by (rule processTextParse_respond)
    with n show "find (\<lambda>v. v \<noteq> None) [n_department n, department e, Some ''General''] =
        Some (Some (a_department (ok_appointment body)))"
      by (rule respond_Ok_department)
  }
  {
    assume "processImageUpload L envTz appts file ocr e = Inr (Ok body, appts')"
    then obtain ocrText path where
      "respond L envTz appts ocrText ''image'' (Some path) e = Inr (Ok body, appts')"
      using processImageUpload_respond by blast
    with n show "find (\<lambda>v. v \<noteq> None) [n_department n, department e, Some ''General''] =
        Some (Some (a_department (ok_appointment body)))"
      by (rule respond_Ok_department)
  }
qed

lemma processTextParse_example:
  "processTextParse exampleLibrary None [] ''Dentist tomorrow at 3pm'' dentistTomorrow =
     Inr (Ok \<lparr>ok_raw_text = ''Dentist tomorrow at 3pm'', ok_entities_confidence = 0.92,
             ok_normalization_confidence = 0.95,
             ok_appointment = \<lparr>a_department = ''Dentist'', a_date = Some ''2026-01-21'',
                a_time = Some ''15:00'', a_tz = ''Asia/Kolkata''\<rparr>,
             ok_id = ''appt_1768847400000''\<rparr>,
          [\<lparr>rawText = ''Dentist tomorrow at 3pm'', extractedEntities = dentistTomorrow,
            normalizedData =
              \<lparr>n_date = Some ''2026-01-21'', n_time = Some ''15:00'',
               n_datetime = Some ''2026-01-21T09:30:00.000Z'',
               n_department = Some ''Dentist'', n_timezone = ''Asia/Kolkata''\<rparr>,
            status = ''success'', source = ''text'', imagePath = None,
            appt_id = ''appt_1768847400000'', createdAt = 1768847400000\<rparr>])"
  by code_simp


theorem committed_department_witness:
  "find (\<lambda>v. v \<noteq> None) [Some ''Dentist'', department dentistTomorrow, Some ''General''] =
     Some (Some ''Dentist'')"
proof -
  have n: "normalizeEntities exampleLibrary dentistTomorrow (timezoneArg None) =
     Inr \<lparr>n_date = Some ''2026-01-21'', n_time = Some ''15:00'',
          n_datetime = Some ''2026-01-21T09:30:00.000Z'',
          n_department = Some ''Dentist'', n_timezone = ''Asia/Kolkata''\<rparr>"
    by code_simp
  from committed_department [OF n, of "[]" "''Dentist tomorrow at 3pm''" _ _ None "Inl ZodError"]
    processTextParse_example
  show ?thesis by simp
qed


end
